theory Spec2Isabelle
  imports Main "HOL-Library.Product_Lexorder" "HOL-Library.Multiset"
begin

section \<open>Data model (src/ai-dashboard-mcp/src/models/user.py)\<close>

text \<open>
  Timestamps are the values of \<^verbatim>\<open>datetime.utcnow()\<close>, kept as natural numbers
  (microseconds since some epoch). A handler may read the clock several times
  during one request; \<open>clock k\<close> is the value of its k-th reading, counted from 0.
  Nothing is assumed about the clock: a theorem that needs two readings to be in
  order says so.
\<close>

type_synonym timestamp = nat
type_synonym clock = "nat \<Rightarrow> timestamp"

text \<open>
  An error response is \<^verbatim>\<open>jsonify({'error': msg}), code\<close>: the message and the
  HTTP status. The coordinator surfaces the spec's error kinds through the
  status: 400 for invalid input and for a failed precondition, 404 for not
  found, 409 for a conflict, 500 for an internal error.
\<close>

type_synonym error = "string \<times> nat"

text \<open>
  Class \<^verbatim>\<open>Agent\<close>. The JSON text of \<^verbatim>\<open>capabilities\<close> is kept as the list it
  encodes (\<^verbatim>\<open>set_capabilities\<close> is \<^verbatim>\<open>json.dumps\<close>); the column is NULL until
  it is set. Fields whose names clash with a field of \<^verbatim>\<open>Task\<close> or with a HOL
  constant carry the suffix \<open>_a\<close>.
\<close>

record agent =
  id_a :: string
  name :: string
  description :: string
  endpoint :: string
  capabilities :: "string list option"
  status_a :: string
  last_heartbeat :: timestamp
  created_at_a :: timestamp
  updated_at :: timestamp

text \<open>
  Class \<^verbatim>\<open>Task\<close>. \<^verbatim>\<open>id\<close> is the integer storage key (\<open>id_t\<close>), \<^verbatim>\<open>task_id\<close>
  the UUID string. \<^verbatim>\<open>parameters\<close> and \<^verbatim>\<open>result\<close> hold JSON text and are NULL
  (\<open>None\<close>) until set, as are \<^verbatim>\<open>error_message\<close>, \<^verbatim>\<open>started_at\<close> and
  \<^verbatim>\<open>completed_at\<close>. \<^verbatim>\<open>status\<close> is a free string column.
\<close>

record task =
  id_t :: nat
  task_id :: string
  agent_id :: string
  task_type :: string
  parameters :: "string option"
  status :: string
  result :: "string option"
  error_message :: "string option"
  priority :: int
  created_at :: timestamp
  started_at :: "timestamp option"
  completed_at :: "timestamp option"

text \<open>The store: each table is the list of its rows in storage order.\<close>

record db =
  agents :: "agent list"
  tasks :: "task list"

section \<open>Store access\<close>

text \<open>
  \<^verbatim>\<open>Agent.query.get(i)\<close> and \<^verbatim>\<open>Agent.query.filter_by(id=i).first()\<close>: the first
  row with that key, if any. Likewise \<^verbatim>\<open>Task.query.filter_by(task_id=i).first()\<close>.
\<close>

definition agent_row :: "db \<Rightarrow> string \<Rightarrow> agent option" where
  "agent_row s i = find (\<lambda>a. id_a a = i) (agents s)"

definition task_row :: "db \<Rightarrow> string \<Rightarrow> task option" where
  "task_row s i = find (\<lambda>t. task_id t = i) (tasks s)"

text \<open>
  Writing back the row a query returned: the first row that satisfies the
  query's condition is replaced, every other row stays.
\<close>

fun update_first :: "('a \<Rightarrow> bool) \<Rightarrow> ('a \<Rightarrow> 'a) \<Rightarrow> 'a list \<Rightarrow> 'a list" where
  "update_first P f [] = []"
| "update_first P f (x # xs) = (if P x then f x # xs else x # update_first P f xs)"

definition internal_error :: error where
  "internal_error = (''Internal server error'', 500)"

section \<open>Task list (routes/mcp.py, get_tasks)\<close>











section \<open>Agent registry (routes/mcp.py)\<close>

text \<open>
  The JSON body of a registration request: each key is present or not.
\<close>

record agent_data =
  d_id :: "string option"
  d_name :: "string option"
  d_endpoint :: "string option"
  d_description :: "string option"
  d_capabilities :: "string list option"

text \<open>
  \<^verbatim>\<open>register_agent\<close>. The required keys are checked in the order id, name,
  endpoint; then the duplicate check; then the insert, where the three timestamp
  columns take their default \<^verbatim>\<open>datetime.utcnow\<close> in column order. Success is
  answered with status 201 and the new agent.
\<close>

definition register_agent :: "db \<Rightarrow> clock \<Rightarrow> agent_data \<Rightarrow> (error + agent) \<times> db" where
  "register_agent s clock data =
     (case d_id data of
        None \<Rightarrow> (Inl (''Missing required field: id'', 400), s)
      | Some i \<Rightarrow>
     (case d_name data of
        None \<Rightarrow> (Inl (''Missing required field: name'', 400), s)
      | Some n \<Rightarrow>
     (case d_endpoint data of
        None \<Rightarrow> (Inl (''Missing required field: endpoint'', 400), s)
      | Some e \<Rightarrow>
     (case agent_row s i of
        Some existing_agent \<Rightarrow> (Inl (''Agent with this ID already exists'', 409), s)
      | None \<Rightarrow>
          (let agent = \<lparr>id_a = i, name = n,
                        description = (case d_description data of None \<Rightarrow> [] | Some d \<Rightarrow> d),
                        endpoint = e,
                        capabilities = d_capabilities data,
                        status_a = ''active'',
                        last_heartbeat = clock 0,
                        created_at_a = clock 1,
                        updated_at = clock 2\<rparr>
           in (Inr agent, s\<lparr>agents := agents s @ [agent]\<rparr>))))))"

text \<open>
  Committing a changed \<^verbatim>\<open>Agent\<close> row. \<^verbatim>\<open>updated_at\<close> is declared with
  \<^verbatim>\<open>onupdate=datetime.utcnow\<close> (user.py, line 17): when the commit writes a row in
  which some column changed and the handler did not assign \<^verbatim>\<open>updated_at\<close> itself,
  the column is set from the clock at commit time. A row with no changed column
  is not written.
\<close>

definition commit_agent :: "timestamp \<Rightarrow> agent \<Rightarrow> agent \<Rightarrow> agent" where
  "commit_agent now old new =
     (if new = old then new
      else if updated_at new \<noteq> updated_at old then new
      else new\<lparr>updated_at := now\<rparr>)"

text \<open>
  \<^verbatim>\<open>agent_heartbeat\<close>. \<^verbatim>\<open>Agent.query.get_or_404\<close> stands inside the handler's
  \<^verbatim>\<open>try\<close>; the \<^verbatim>\<open>NotFound\<close> it raises for an unknown id is an \<^verbatim>\<open>Exception\<close>, so
  the handler's \<^verbatim>\<open>except Exception\<close> catches it and answers 500 (lines 98-108).
  Reading 0 of the clock is line 100, reading 1 the commit.
\<close>

definition agent_heartbeat :: "db \<Rightarrow> clock \<Rightarrow> string \<Rightarrow> (error + string) \<times> db" where
  "agent_heartbeat s clock i =
     (case agent_row s i of
        None \<Rightarrow> (Inl internal_error, s)
      | Some agent \<Rightarrow>
          (let agent' = agent\<lparr>last_heartbeat := clock 0, status_a := ''active''\<rparr>
           in (Inr ''heartbeat_received'',
               s\<lparr>agents := update_first (\<lambda>a. id_a a = i)
                                (\<lambda>a. commit_agent (clock 1) a agent') (agents s)\<rparr>)))"

text \<open>
  \<^verbatim>\<open>unregister_agent\<close>, lines 117-121: the loop over the agent's pending tasks, in
  storage order; \<open>k\<close> counts the clock readings made so far.
\<close>

fun cancel_pending :: "string \<Rightarrow> clock \<Rightarrow> nat \<Rightarrow> task list \<Rightarrow> task list" where
  "cancel_pending i clock k [] = []"
| "cancel_pending i clock k (t # ts) =
     (if agent_id t = i \<and> status t = ''pending''
      then t\<lparr>status := ''cancelled'',
             error_message := Some ''Agent unregistered'',
             completed_at := Some (clock k)\<rparr> # cancel_pending i clock (Suc k) ts
      else t # cancel_pending i clock k ts)"

text \<open>
  \<^verbatim>\<open>unregister_agent\<close>. As in \<open>agent_heartbeat\<close>, an unknown id ends in the
  \<^verbatim>\<open>except Exception\<close> branch. For a known id the handler stages the
  cancellations and the deletion of the agent row, then commits (line 124).
  \<^verbatim>\<open>Task.agent\<close> (user.py, line 60) gives \<^verbatim>\<open>Agent\<close> a \<^verbatim>\<open>tasks\<close> collection that has no
  delete cascade, so at the commit the session detaches every task of the deleted
  agent by writing NULL to its \<^verbatim>\<open>agent_id\<close>. That column is declared
  \<^verbatim>\<open>nullable=False\<close> (user.py, line 48): when the agent has any task the write is
  refused, the commit raises, the handler answers 500 (lines 129-131) and nothing
  staged reaches the store. Success is answered with status 204 and an empty body.
\<close>

definition unregister_agent :: "db \<Rightarrow> clock \<Rightarrow> string \<Rightarrow> (error + string) \<times> db" where
  "unregister_agent s clock i =
     (case agent_row s i of
        None \<Rightarrow> (Inl internal_error, s)
      | Some agent \<Rightarrow>
          (let staged = s\<lparr>agents := filter (\<lambda>a. id_a a \<noteq> i) (agents s),
                          tasks := cancel_pending i clock 0 (tasks s)\<rparr>
           in if list_ex (\<lambda>t. agent_id t = i) (tasks staged)
              then (Inl internal_error, s)
              else (Inr [], staged)))"

section \<open>Task ledger: status update (routes/mcp.py, update_task_status)\<close>

text \<open>
  The JSON body of a status update: each key is present or not; \<^verbatim>\<open>result\<close> is
  carried as the JSON text that \<^verbatim>\<open>set_result\<close> stores.
\<close>

record status_data =
  d_status :: "string option"
  d_result :: "string option"
  d_error_message :: "string option"

text \<open>Lines 217-225: the new status and the timestamps that depend on it.\<close>

definition apply_status :: "timestamp \<Rightarrow> string option \<Rightarrow> task \<Rightarrow> task" where
  "apply_status now new t =
     (case new of
        None \<Rightarrow> t
      | Some st \<Rightarrow>
          (let old_status = status t;
               t' = t\<lparr>status := st\<rparr>
           in if st = ''running'' \<and> old_status = ''pending'' then t'\<lparr>started_at := Some now\<rparr>
              else if st \<in> set [''completed'', ''failed'', ''cancelled'']
                   then t'\<lparr>completed_at := Some now\<rparr>
              else t'))"

text \<open>Lines 228-229 and 232-233.\<close>

definition apply_result :: "string option \<Rightarrow> task \<Rightarrow> task" where
  "apply_result r t = (case r of None \<Rightarrow> t | Some v \<Rightarrow> t\<lparr>result := Some v\<rparr>)"

definition apply_error_message :: "string option \<Rightarrow> task \<Rightarrow> task" where
  "apply_error_message m t = (case m of None \<Rightarrow> t | Some v \<Rightarrow> t\<lparr>error_message := Some v\<rparr>)"

text \<open>
  \<^verbatim>\<open>update_task_status\<close>. \<^verbatim>\<open>first_or_404\<close> stands inside the \<^verbatim>\<open>try\<close>, so an
  unknown task id is answered with 500. Success returns the updated task.
\<close>

definition update_task_status :: "db \<Rightarrow> clock \<Rightarrow> string \<Rightarrow> status_data \<Rightarrow> (error + task) \<times> db" where
  "update_task_status s clock i data =
     (case task_row s i of
        None \<Rightarrow> (Inl internal_error, s)
      | Some t \<Rightarrow>
          (let t' = apply_error_message (d_error_message data)
                      (apply_result (d_result data)
                        (apply_status (clock 0) (d_status data) t))
           in (Inr t', s\<lparr>tasks := update_first (\<lambda>x. task_id x = i) (\<lambda>x. t') (tasks s)\<rparr>)))"

section \<open>Dispatcher (routes/mcp.py, execute_task)\<close>

text \<open>\<^verbatim>\<open>str\<close> of a status code, for the diagnostic message.\<close>

definition digit_char :: "nat \<Rightarrow> char" where
  "digit_char d = ''0123456789'' ! d"

fun str_nat :: "nat \<Rightarrow> string" where
  "str_nat n = (if n < 10 then [digit_char n] else str_nat (n div 10) @ [digit_char (n mod 10)])"

declare str_nat.simps [simp del]

text \<open>
  What \<^verbatim>\<open>requests.post(..., timeout=30)\<close> does: it returns a response with a status
  code, or raises a \<^verbatim>\<open>RequestException\<close> (connection error, timeout) whose text is
  \<^verbatim>\<open>str(e)\<close>.
\<close>

datatype post_outcome = Response nat | RequestException string

text \<open>
  \<^verbatim>\<open>execute_task\<close>. An unknown task id is answered with 500 (\<^verbatim>\<open>first_or_404\<close> inside
  the \<^verbatim>\<open>try\<close>). Lines 258-260 commit the running state before the call (clock
  reading 0); the failure branches read the clock a second time.
\<close>

definition execute_task :: "db \<Rightarrow> clock \<Rightarrow> post_outcome \<Rightarrow> string \<Rightarrow> (error + string) \<times> db" where
  "execute_task s clock outcome i =
     (case task_row s i of
        None \<Rightarrow> (Inl internal_error, s)
      | Some t \<Rightarrow>
          if status t \<noteq> ''pending'' then (Inl (''Task is not in pending status'', 400), s)
          else
            (case agent_row s (agent_id t) of
               None \<Rightarrow> (Inl (''Agent not available'', 400), s)
             | Some agent \<Rightarrow>
                 if status_a agent \<noteq> ''active'' then (Inl (''Agent not available'', 400), s)
                 else
                   (let t1 = t\<lparr>status := ''running'', started_at := Some (clock 0)\<rparr>;
                        s1 = s\<lparr>tasks := update_first (\<lambda>x. task_id x = i) (\<lambda>x. t1) (tasks s)\<rparr>
                    in case outcome of
                         Response status_code \<Rightarrow>
                           if status_code = 200 then (Inr ''task_sent_to_agent'', s1)
                           else
                             (let t2 = t1\<lparr>status := ''failed'',
                                          error_message :=
                                            Some (''Agent returned status '' @ str_nat status_code),
                                          completed_at := Some (clock 1)\<rparr>
                              in (Inl (''Agent execution failed'', 500),
                                  s1\<lparr>tasks := update_first (\<lambda>x. task_id x = i) (\<lambda>x. t2) (tasks s1)\<rparr>))
                       | RequestException e \<Rightarrow>
                           (let t2 = t1\<lparr>status := ''failed'',
                                        error_message :=
                                          Some (''Failed to communicate with agent: '' @ e),
                                        completed_at := Some (clock 1)\<rparr>
                            in (Inl (''Failed to communicate with agent'', 500),
                                s1\<lparr>tasks := update_first (\<lambda>x. task_id x = i) (\<lambda>x. t2) (tasks s1)\<rparr>)))))"

text \<open>A success status code in the sense of HTTP: 2xx.\<close>

definition success_code :: "nat \<Rightarrow> bool" where
  "success_code c = (200 \<le> c \<and> c < 300)"

section \<open>System status (routes/mcp.py, get_system_status)\<close>

record agent_counts =
  active :: nat
  inactive :: nat
  error :: nat
  total :: nat

record task_counts =
  pending :: nat
  running :: nat
  completed :: nat
  failed :: nat
  total_t :: nat

record system_status =
  agents_s :: agent_counts
  tasks_s :: task_counts
  timestamp_s :: timestamp

text \<open>\<^verbatim>\<open>Agent.query.filter_by(status=v).count()\<close> and the same on \<^verbatim>\<open>Task\<close>.\<close>

definition count_agents :: "db \<Rightarrow> string \<Rightarrow> nat" where
  "count_agents s v = length (filter (\<lambda>a. status_a a = v) (agents s))"

definition count_tasks :: "db \<Rightarrow> string \<Rightarrow> nat" where
  "count_tasks s v = length (filter (\<lambda>t. status t = v) (tasks s))"

definition get_system_status :: "db \<Rightarrow> clock \<Rightarrow> system_status" where
  "get_system_status s clock =
     (let active_agents = count_agents s ''active'';
          inactive_agents = count_agents s ''inactive'';
          error_agents = count_agents s ''error'';
          pending_tasks = count_tasks s ''pending'';
          running_tasks = count_tasks s ''running'';
          completed_tasks = count_tasks s ''completed'';
          failed_tasks = count_tasks s ''failed''
      in \<lparr>agents_s = \<lparr>active = active_agents, inactive = inactive_agents, error = error_agents,
                       total = active_agents + inactive_agents + error_agents\<rparr>,
          tasks_s = \<lparr>pending = pending_tasks, running = running_tasks,
                      completed = completed_tasks, failed = failed_tasks,
                      total_t = pending_tasks + running_tasks + completed_tasks + failed_tasks\<rparr>,
          timestamp_s = clock 0\<rparr>)"

section \<open>The task invariant of the spec\<close>

text \<open>
  A column is populated when it is set and not empty. A status is terminal when
  it is completed, failed or cancelled. The invariant of the data model: once
  terminal, exactly one of result and error message is populated; started-at is
  not after completed-at when both are present.
\<close>

definition populated :: "string option \<Rightarrow> bool" where
  "populated v = (case v of None \<Rightarrow> False | Some x \<Rightarrow> x \<noteq> [])"

definition terminal :: "string \<Rightarrow> bool" where
  "terminal st = (st = ''completed'' \<or> st = ''failed'' \<or> st = ''cancelled'')"

definition timestamps_ordered :: "task \<Rightarrow> bool" where
  "timestamps_ordered t =
     (case (started_at t, completed_at t) of (Some b, Some e) \<Rightarrow> b \<le> e | _ \<Rightarrow> True)"

definition task_invariant :: "task \<Rightarrow> bool" where
  "task_invariant t =
     ((terminal (status t) \<longrightarrow> populated (result t) \<noteq> populated (error_message t)) \<and>
      timestamps_ordered t)"

section \<open>Scenario data\<close>

text \<open>
  The scenario of the spec: agent a1, active; task t1 for a1 with priority 5 and
  task t2 for a1 with priority 1, both pending. Task t3 has the priority and the
  creation time of t1.
\<close>

definition agent_a1 :: agent where
  "agent_a1 = \<lparr>id_a = ''a1'', name = ''Blog agent'', description = [],
                endpoint = ''http://localhost:5001'', capabilities = None,
                status_a = ''active'', last_heartbeat = 1, created_at_a = 1, updated_at = 1\<rparr>"

definition task_t1 :: task where
  "task_t1 = \<lparr>id_t = 1, task_id = ''t1'', agent_id = ''a1'', task_type = ''blog'',
               parameters = None, status = ''pending'', result = None, error_message = None,
               priority = 5, created_at = 10, started_at = None, completed_at = None\<rparr>"

definition task_t2 :: task where
  "task_t2 = \<lparr>id_t = 2, task_id = ''t2'', agent_id = ''a1'', task_type = ''blog'',
               parameters = None, status = ''pending'', result = None, error_message = None,
               priority = 1, created_at = 20, started_at = None, completed_at = None\<rparr>"


definition db_scenario :: db where
  "db_scenario = \<lparr>agents = [agent_a1], tasks = [task_t1, task_t2]\<rparr>"



text \<open>A clock that advances by one microsecond per reading, starting at 100.\<close>

definition clock_100 :: clock where
  "clock_100 k = 100 + k"

section \<open>The task list: filter and order\<close>





lemma sort_key_same_keys:
  assumes "mset xs = mset ys"
  shows "map f (sort_key f xs) = map f (sort_key f ys)"
proof -
  have "mset (map f (sort_key f xs)) = mset (map f (sort_key f ys))"
    using assms by (metis mset_map mset_sort)
  moreover have "sorted (map f (sort_key f xs))" and "sorted (map f (sort_key f ys))"
    by simp_all
  ultimately show ?thesis
    by (metis properties_for_sort)
qed











section \<open>Rows and their write-back\<close>

lemma find_update_first:
  "find P xs = Some x \<Longrightarrow> P y \<Longrightarrow> find P (update_first P (\<lambda>x. y) xs) = Some y"
  by (induction xs) (auto split: if_splits)

lemma update_first_list_update:
  "find P xs = Some x \<Longrightarrow>
   \<exists>k<length xs. xs ! k = x \<and> (\<forall>j<k. \<not> P (xs ! j)) \<and> update_first P f xs = xs[k := f x]"
proof (induction xs)
  case Nil
  then show ?case by simp
next
  case (Cons a xs)
  show ?case
  proof (cases "P a")
    case True
    with Cons.prems have "a = x" by simp
    with True show ?thesis by (intro exI [of _ 0]) simp
  next
    case False
    with Cons.prems have "find P xs = Some x" by simp
    from Cons.IH [OF this] obtain k where k: "k < length xs" "xs ! k = x"
      "\<forall>j<k. \<not> P (xs ! j)" "update_first P f xs = xs[k := f x]" by blast
    have "\<forall>j<Suc k. \<not> P ((a # xs) ! j)"
      using False k(3) by (auto simp: less_Suc_eq_0_disj)
    with k False show ?thesis by (intro exI [of _ "Suc k"]) simp
  qed
qed

lemma update_first_twice:
  "find P xs = Some x \<Longrightarrow> P y \<Longrightarrow>
   update_first P (\<lambda>x. z) (update_first P (\<lambda>x. y) xs) = update_first P (\<lambda>x. z) xs"
  by (induction xs) (auto split: if_splits)

lemma task_row_id: "task_row s i = Some t \<Longrightarrow> task_id t = i"
  by (auto simp: task_row_def dest: find_Some_iff [THEN iffD1])

section \<open>Dispatch\<close>

text \<open>The store after an accepted dispatch, and after a failed one.\<close>

lemma execute_task_accepted_store:
  assumes "task_row s i = Some t" and "status t = ''pending''"
    and "agent_row s (agent_id t) = Some a" and "status_a a = ''active''"
  shows "execute_task s clock (Response 200) i =
           (Inr ''task_sent_to_agent'',
            s\<lparr>tasks := update_first (\<lambda>x. task_id x = i)
                          (\<lambda>x. t\<lparr>status := ''running'', started_at := Some (clock 0)\<rparr>) (tasks s)\<rparr>)"
  using assms by (simp add: execute_task_def)

lemma execute_task_failed_store:
  assumes "task_row s i = Some t" and "status t = ''pending''"
    and "agent_row s (agent_id t) = Some a" and "status_a a = ''active''"
    and "outcome \<noteq> Response 200"
  shows "execute_task s clock outcome i =
           (Inl (case outcome of Response c \<Rightarrow> ''Agent execution failed''
                 | RequestException e \<Rightarrow> ''Failed to communicate with agent'', 500),
            s\<lparr>tasks := update_first (\<lambda>x. task_id x = i)
                (\<lambda>x. t\<lparr>status := ''failed'', started_at := Some (clock 0),
                        error_message := Some (case outcome of
                            Response c \<Rightarrow> ''Agent returned status '' @ str_nat c
                          | RequestException e \<Rightarrow> ''Failed to communicate with agent: '' @ e),
                        completed_at := Some (clock 1)\<rparr>) (tasks s)\<rparr>)"
proof -
  have i: "task_id t = i" using assms(1) by (rule task_row_id)
  have f: "find (\<lambda>x. task_id x = i) (tasks s) = Some t"
    using assms(1) by (simp add: task_row_def)
  show ?thesis
  proof (cases outcome)
    case (Response c)
    with assms(5) have "c \<noteq> 200" by simp
    with Response assms(1-4) i show ?thesis
      by (cases t) (simp add: execute_task_def Let_def update_first_twice [OF f])
  next
    case (RequestException e)
    with assms(1-4) i show ?thesis
      by (cases t) (simp add: execute_task_def Let_def update_first_twice [OF f])
  qed
qed

text \<open>
  Claim C2, as the code has it. When a pending task is dispatched to an active
  agent and the agent answers with status code 200, dispatch returns the
  acknowledgement \<^verbatim>\<open>task_sent_to_agent\<close>; the task is then exactly as before
  except that its status is running and started-at is the clock reading. It is
  not completed, and completed-at is as it was.
\<close>

theorem execute_task_accepted:
  assumes "task_row s i = Some t" and "status t = ''pending''"
    and "agent_row s (agent_id t) = Some a" and "status_a a = ''active''"
  shows "\<exists>s' t'. execute_task s clock (Response 200) i = (Inr ''task_sent_to_agent'', s') \<and>
           task_row s' i = Some t' \<and>
           t' = t\<lparr>status := ''running'', started_at := Some (clock 0)\<rparr> \<and>
           status t' \<noteq> ''completed'' \<and> completed_at t' = completed_at t"
proof -
  let ?t = "t\<lparr>status := ''running'', started_at := Some (clock 0)\<rparr>"
  have "task_id ?t = i" using assms(1) by (simp add: task_row_id)
  then have "find (\<lambda>x. task_id x = i) (update_first (\<lambda>x. task_id x = i) (\<lambda>x. ?t) (tasks s)) = Some ?t"
    using assms(1) unfolding task_row_def by (rule find_update_first [rotated])
  then show ?thesis
    using execute_task_accepted_store [OF assms, of clock]
    by (simp add: task_row_def)
qed

text \<open>Dispatching t2 of the scenario at clock reading 100, the agent answering 200.\<close>

theorem execute_task_accepted_witness:
  "task_row db_scenario ''t2'' = Some task_t2 \<and> status task_t2 = ''pending'' \<and>
   agent_row db_scenario (agent_id task_t2) = Some agent_a1 \<and> status_a agent_a1 = ''active'' \<and>
   (\<exists>s'. execute_task db_scenario clock_100 (Response 200) ''t2'' = (Inr ''task_sent_to_agent'', s') \<and>
      task_row s' ''t2'' = Some (task_t2\<lparr>status := ''running'', started_at := Some 100\<rparr>))"
proof -
  have h: "task_row db_scenario ''t2'' = Some task_t2" "status task_t2 = ''pending''"
    "agent_row db_scenario (agent_id task_t2) = Some agent_a1" "status_a agent_a1 = ''active''"
    by (simp_all add: task_row_def agent_row_def db_scenario_def task_t1_def task_t2_def agent_a1_def)
  from execute_task_accepted [OF h, of clock_100] h show ?thesis
    by (auto simp: clock_100_def)
qed

text \<open>
  Claim C2 as stated fails for a success status code other than 200: when the
  agent answers 201, dispatch reports a failure and the task ends failed, with
  completed-at set (line 277 compares the status code with 200).
\<close>

theorem execute_task_accepted_counterexample:
  "success_code 201 \<and>
   fst (execute_task db_scenario clock_100 (Response 201) ''t2'') = Inl (''Agent execution failed'', 500) \<and>
   task_row (snd (execute_task db_scenario clock_100 (Response 201) ''t2'')) ''t2'' =
     Some (task_t2\<lparr>status := ''failed'', started_at := Some 100,
                   error_message := Some ''Agent returned status 201'',
                   completed_at := Some 101\<rparr>)"
  by (simp add: success_code_def execute_task_def task_row_def agent_row_def db_scenario_def
      task_t1_def task_t2_def agent_a1_def clock_100_def str_nat.simps digit_char_def)

text \<open>
  Claim C3. When a pending task is dispatched to an active agent and the call
  raises a request exception (transport error, timeout) or the agent answers
  with a status code that is not a success code, dispatch reports a failure
  (status 500) and the task is exactly as before except that its status is
  failed, started-at is the first clock reading, the error message is a
  non-empty diagnostic and completed-at is the second clock reading; dispatch
  does not write the result field.
\<close>

theorem execute_task_failure:
  assumes "task_row s i = Some t" and "status t = ''pending''"
    and "agent_row s (agent_id t) = Some a" and "status_a a = ''active''"
    and "(\<exists>e. outcome = RequestException e) \<or> (\<exists>c. outcome = Response c \<and> \<not> success_code c)"
  shows "\<exists>r m s' t'. execute_task s clock outcome i = (Inl (r, 500), s') \<and>
           task_row s' i = Some t' \<and> m \<noteq> [] \<and>
           t' = t\<lparr>status := ''failed'', started_at := Some (clock 0),
                  error_message := Some m, completed_at := Some (clock 1)\<rparr> \<and>
           result t' = result t"
proof -
  let ?m = "case outcome of Response c \<Rightarrow> ''Agent returned status '' @ str_nat c
            | RequestException e \<Rightarrow> ''Failed to communicate with agent: '' @ e"
  let ?t = "t\<lparr>status := ''failed'', started_at := Some (clock 0),
                  error_message := Some ?m, completed_at := Some (clock 1)\<rparr>"
  have o: "outcome \<noteq> Response 200"
    using assms(5) by (auto simp: success_code_def)
  have m: "?m \<noteq> []" by (cases outcome) simp_all
  have "task_id ?t = i" using assms(1) by (simp add: task_row_id)
  then have "find (\<lambda>x. task_id x = i) (update_first (\<lambda>x. task_id x = i) (\<lambda>x. ?t) (tasks s)) = Some ?t"
    using assms(1) unfolding task_row_def by (rule find_update_first [rotated])
  then have "task_row (snd (execute_task s clock outcome i)) i = Some ?t"
    using execute_task_failed_store [OF assms(1-4) o, of clock] by (simp add: task_row_def)
  with m execute_task_failed_store [OF assms(1-4) o, of clock] show ?thesis
    by (cases "execute_task s clock outcome i") auto
qed

text \<open>Dispatching t2 of the scenario, the agent answering 503.\<close>

theorem execute_task_failure_witness:
  "task_row db_scenario ''t2'' = Some task_t2 \<and> status task_t2 = ''pending'' \<and>
   agent_row db_scenario (agent_id task_t2) = Some agent_a1 \<and> status_a agent_a1 = ''active'' \<and>
   \<not> success_code 503 \<and>
   (\<exists>r m s'. execute_task db_scenario clock_100 (Response 503) ''t2'' = (Inl (r, 500), s') \<and>
      m \<noteq> [] \<and>
      task_row s' ''t2'' = Some (task_t2\<lparr>status := ''failed'', started_at := Some 100,
                                         error_message := Some m, completed_at := Some 101\<rparr>))"
proof -
  have h: "task_row db_scenario ''t2'' = Some task_t2" "status task_t2 = ''pending''"
    "agent_row db_scenario (agent_id task_t2) = Some agent_a1" "status_a agent_a1 = ''active''"
    by (simp_all add: task_row_def agent_row_def db_scenario_def task_t1_def task_t2_def agent_a1_def)
  have c: "\<not> success_code 503" by (simp add: success_code_def)
  then have o: "(\<exists>e. Response 503 = RequestException e) \<or>
                (\<exists>c. Response 503 = Response c \<and> \<not> success_code c)" by simp
  from execute_task_failure [OF h o, of clock_100] h c show ?thesis
    by (auto simp: clock_100_def)
qed

text \<open>
  Claim C6. Dispatching a task that is not pending, or a pending task whose
  agent is absent or not active, is refused with status 400 (the coordinator's
  answer for a failed precondition) and the store, hence the task with its
  status, timestamps, result and error message, is left as it was.
\<close>

theorem execute_task_precondition:
  assumes "task_row s i = Some t"
    and "status t \<noteq> ''pending'' \<or> agent_row s (agent_id t) = None \<or>
         (\<exists>a. agent_row s (agent_id t) = Some a \<and> status_a a \<noteq> ''active'')"
  shows "\<exists>r. execute_task s clock outcome i = (Inl (r, 400), s)"
  using assms by (auto simp: execute_task_def)

text \<open>Dispatching the pending task t1 when no agent is registered.\<close>

theorem execute_task_precondition_witness:
  "task_row (db_scenario\<lparr>agents := []\<rparr>) ''t1'' = Some task_t1 \<and>
   agent_row (db_scenario\<lparr>agents := []\<rparr>) (agent_id task_t1) = None \<and>
   (\<exists>r. execute_task (db_scenario\<lparr>agents := []\<rparr>) clock_100 (Response 200) ''t1'' =
      (Inl (r, 400), db_scenario\<lparr>agents := []\<rparr>))"
proof -
  have h: "task_row (db_scenario\<lparr>agents := []\<rparr>) ''t1'' = Some task_t1"
    and n: "agent_row (db_scenario\<lparr>agents := []\<rparr>) (agent_id task_t1) = None"
    by (simp_all add: task_row_def agent_row_def db_scenario_def task_t1_def)
  from n have d: "status task_t1 \<noteq> ''pending'' \<or>
       agent_row (db_scenario\<lparr>agents := []\<rparr>) (agent_id task_t1) = None \<or>
       (\<exists>a. agent_row (db_scenario\<lparr>agents := []\<rparr>) (agent_id task_t1) = Some a \<and>
            status_a a \<noteq> ''active'')" by simp
  from execute_task_precondition [OF h d, of clock_100 "Response 200"] h n show ?thesis
    by simp
qed

section \<open>Status update\<close>

lemma task_row_update_first:
  assumes "task_row s i = Some t" and "task_id t' = i"
  shows "task_row (s\<lparr>tasks := update_first (\<lambda>x. task_id x = i) (\<lambda>x. t') (tasks s)\<rparr>) i = Some t'"
  using assms by (simp add: task_row_def find_update_first)

text \<open>
  The row that a status update writes, field by field.
\<close>

lemma update_task_status_store:
  assumes "task_row s i = Some t"
  shows "update_task_status s clock i data =
     (Inr (t\<lparr>status := (case d_status data of None \<Rightarrow> status t | Some st \<Rightarrow> st),
            result := (case d_result data of None \<Rightarrow> result t | Some r \<Rightarrow> Some r),
            error_message :=
              (case d_error_message data of None \<Rightarrow> error_message t | Some m \<Rightarrow> Some m),
            started_at := (if d_status data = Some ''running'' \<and> status t = ''pending''
                           then Some (clock 0) else started_at t),
            completed_at := (if d_status data = Some ''completed'' \<or> d_status data = Some ''failed'' \<or>
                                d_status data = Some ''cancelled''
                             then Some (clock 0) else completed_at t)\<rparr>),
      s\<lparr>tasks := update_first (\<lambda>x. task_id x = i)
         (\<lambda>x. t\<lparr>status := (case d_status data of None \<Rightarrow> status t | Some st \<Rightarrow> st),
            result := (case d_result data of None \<Rightarrow> result t | Some r \<Rightarrow> Some r),
            error_message :=
              (case d_error_message data of None \<Rightarrow> error_message t | Some m \<Rightarrow> Some m),
            started_at := (if d_status data = Some ''running'' \<and> status t = ''pending''
                           then Some (clock 0) else started_at t),
            completed_at := (if d_status data = Some ''completed'' \<or> d_status data = Some ''failed'' \<or>
                                d_status data = Some ''cancelled''
                             then Some (clock 0) else completed_at t)\<rparr>) (tasks s)\<rparr>)"
proof -
  have e: "apply_error_message (d_error_message data)
              (apply_result (d_result data) (apply_status (clock 0) (d_status data) t)) =
           t\<lparr>status := (case d_status data of None \<Rightarrow> status t | Some st \<Rightarrow> st),
            result := (case d_result data of None \<Rightarrow> result t | Some r \<Rightarrow> Some r),
            error_message :=
              (case d_error_message data of None \<Rightarrow> error_message t | Some m \<Rightarrow> Some m),
            started_at := (if d_status data = Some ''running'' \<and> status t = ''pending''
                           then Some (clock 0) else started_at t),
            completed_at := (if d_status data = Some ''completed'' \<or> d_status data = Some ''failed'' \<or>
                                d_status data = Some ''cancelled''
                             then Some (clock 0) else completed_at t)\<rparr>"
    by (cases t)
       (simp add: apply_error_message_def apply_result_def apply_status_def Let_def
        split: option.splits)
  show ?thesis
    using assms by (simp add: update_task_status_def Let_def e)
qed

text \<open>
  Claim C5. For an existing task the status update succeeds and changes the
  task in exactly this way: the status becomes the supplied one, if any;
  started-at becomes the clock reading exactly when the supplied status is
  running and the old status is pending, and is unchanged otherwise;
  completed-at becomes the clock reading exactly when the supplied status is
  completed, failed or cancelled; result and error message become the supplied
  values, each on its own, whether or not a status is supplied.
\<close>
theorem update_task_status_effects:
  assumes "task_row s i = Some t"
  shows "\<exists>s' t'. update_task_status s clock i data = (Inr t', s') \<and> task_row s' i = Some t' \<and>
     t' = t\<lparr>status := (case d_status data of None \<Rightarrow> status t | Some st \<Rightarrow> st),
            result := (case d_result data of None \<Rightarrow> result t | Some r \<Rightarrow> Some r),
            error_message :=
              (case d_error_message data of None \<Rightarrow> error_message t | Some m \<Rightarrow> Some m),
            started_at := (if d_status data = Some ''running'' \<and> status t = ''pending''
                           then Some (clock 0) else started_at t),
            completed_at := (if d_status data = Some ''completed'' \<or> d_status data = Some ''failed'' \<or>
                                d_status data = Some ''cancelled''
                             then Some (clock 0) else completed_at t)\<rparr>"
  using update_task_status_store [OF assms, of clock data]
    task_row_update_first [OF assms] task_row_id [OF assms]
  by simp

text \<open>Reporting t1 of the scenario as running at clock reading 100.\<close>

theorem update_task_status_effects_witness:
  "task_row db_scenario ''t1'' = Some task_t1 \<and>
   (\<exists>s'. update_task_status db_scenario clock_100 ''t1''
            \<lparr>d_status = Some ''running'', d_result = None, d_error_message = None\<rparr> =
          (Inr (task_t1\<lparr>status := ''running'', started_at := Some 100\<rparr>), s'))"
proof -
  have h: "task_row db_scenario ''t1'' = Some task_t1"
    by (simp add: task_row_def db_scenario_def task_t1_def)
  from update_task_status_effects [OF h, of clock_100
      "\<lparr>d_status = Some ''running'', d_result = None, d_error_message = None\<rparr>"] h
  show ?thesis
    by (auto simp: clock_100_def task_t1_def)
qed

section \<open>The task invariant under the writes to task state\<close>

text \<open>
  Claim C7, as the code has it. The code holds no check of the invariant; two
  writes keep it under conditions on their input. A status update that
  supplies a terminal status together with exactly one of a non-empty result
  and a non-empty error message, on a task that holds neither, whose started-at
  (if set) is not after the clock reading, leaves the task terminal and
  satisfying the invariant. Dispatch failure handling, on a pending task that
  holds no result, with the second clock reading not before the first, leaves
  the task terminal and satisfying the invariant. Nothing is said here about
  the cancellations of an unregistration.
\<close>

theorem terminal_writes_keep_invariant:
  assumes "task_row s i = Some t"
  shows "(\<forall>st. d_status data = Some st \<and> terminal st \<and>
            populated (d_result data) \<noteq> populated (d_error_message data) \<and>
            \<not> populated (result t) \<and> \<not> populated (error_message t) \<and>
            (\<forall>b. started_at t = Some b \<longrightarrow> b \<le> clock 0) \<longrightarrow>
          (\<exists>s' t'. update_task_status s clock i data = (Inr t', s') \<and>
             task_row s' i = Some t' \<and> terminal (status t') \<and> task_invariant t')) \<and>
         (status t = ''pending'' \<and>
            (\<exists>a. agent_row s (agent_id t) = Some a \<and> status_a a = ''active'') \<and>
            outcome \<noteq> Response 200 \<and> \<not> populated (result t) \<and> clock 0 \<le> clock 1 \<longrightarrow>
          (\<exists>e s' t'. execute_task s clock outcome i = (Inl e, s') \<and>
             task_row s' i = Some t' \<and> terminal (status t') \<and> task_invariant t'))"
proof (intro conjI allI impI)
  fix st
  assume h: "d_status data = Some st \<and> terminal st \<and>
            populated (d_result data) \<noteq> populated (d_error_message data) \<and>
            \<not> populated (result t) \<and> \<not> populated (error_message t) \<and>
            (\<forall>b. started_at t = Some b \<longrightarrow> b \<le> clock 0)"
  let ?t = "t\<lparr>status := (case d_status data of None \<Rightarrow> status t | Some st \<Rightarrow> st),
            result := (case d_result data of None \<Rightarrow> result t | Some r \<Rightarrow> Some r),
            error_message :=
              (case d_error_message data of None \<Rightarrow> error_message t | Some m \<Rightarrow> Some m),
            started_at := (if d_status data = Some ''running'' \<and> status t = ''pending''
                           then Some (clock 0) else started_at t),
            completed_at := (if d_status data = Some ''completed'' \<or> d_status data = Some ''failed'' \<or>
                                d_status data = Some ''cancelled''
                             then Some (clock 0) else completed_at t)\<rparr>"
  have "terminal (status ?t)" using h by simp
  moreover have "task_invariant ?t"
    using h by (auto simp: task_invariant_def timestamps_ordered_def terminal_def populated_def
        split: option.splits)
  ultimately show "\<exists>s' t'. update_task_status s clock i data = (Inr t', s') \<and>
             task_row s' i = Some t' \<and> terminal (status t') \<and> task_invariant t'"
    using update_task_status_store [OF assms, of clock data]
      task_row_update_first [OF assms, of ?t] task_row_id [OF assms]
    by simp
next
  assume h: "status t = ''pending'' \<and>
            (\<exists>a. agent_row s (agent_id t) = Some a \<and> status_a a = ''active'') \<and>
            outcome \<noteq> Response 200 \<and> \<not> populated (result t) \<and> clock 0 \<le> clock 1"
  then obtain a where a: "agent_row s (agent_id t) = Some a" "status_a a = ''active''" by blast
  let ?m = "case outcome of Response c \<Rightarrow> ''Agent returned status '' @ str_nat c
            | RequestException e \<Rightarrow> ''Failed to communicate with agent: '' @ e"
  let ?t = "t\<lparr>status := ''failed'', started_at := Some (clock 0),
                  error_message := Some ?m, completed_at := Some (clock 1)\<rparr>"
  have m: "populated (Some ?m)" by (cases outcome) (simp_all add: populated_def)
  have "terminal (status ?t)" by (simp add: terminal_def)
  moreover have "task_invariant ?t"
    using h m by (simp add: task_invariant_def timestamps_ordered_def)
  ultimately show "\<exists>e s' t'. execute_task s clock outcome i = (Inl e, s') \<and>
             task_row s' i = Some t' \<and> terminal (status t') \<and> task_invariant t'"
    using execute_task_failed_store [OF assms _ a, of outcome clock] h
      task_row_update_first [OF assms, of ?t] task_row_id [OF assms]
    by simp
qed

text \<open>
  Task t2 of the scenario: reported completed with a result, and (from the same
  store) dispatched to an agent that times out.
\<close>

theorem terminal_writes_keep_invariant_witness:
  "task_row db_scenario ''t2'' = Some task_t2 \<and>
   (\<exists>s'. update_task_status db_scenario clock_100 ''t2''
            \<lparr>d_status = Some ''completed'', d_result = Some ''{\"ok\": true}'',
             d_error_message = None\<rparr> =
          (Inr (task_t2\<lparr>status := ''completed'', result := Some ''{\"ok\": true}'',
                        completed_at := Some 100\<rparr>), s')) \<and>
   task_invariant (task_t2\<lparr>status := ''completed'', result := Some ''{\"ok\": true}'',
                          completed_at := Some 100\<rparr>) \<and>
   (\<exists>e s' t'. execute_task db_scenario clock_100 (RequestException ''timed out'') ''t2'' =
        (Inl e, s') \<and> task_row s' ''t2'' = Some t' \<and> terminal (status t') \<and> task_invariant t')"
proof -
  let ?d = "\<lparr>d_status = Some ''completed'', d_result = Some ''{\"ok\": true}'',
             d_error_message = None\<rparr>"
  have h: "task_row db_scenario ''t2'' = Some task_t2"
    by (simp add: task_row_def db_scenario_def task_t1_def task_t2_def)
  have u: "d_status ?d = Some ''completed'' \<and> terminal ''completed'' \<and>
            populated (d_result ?d) \<noteq> populated (d_error_message ?d) \<and>
            \<not> populated (result task_t2) \<and> \<not> populated (error_message task_t2) \<and>
            (\<forall>b. started_at task_t2 = Some b \<longrightarrow> b \<le> clock_100 0)"
    by (simp add: terminal_def populated_def task_t2_def)
  have x: "status task_t2 = ''pending'' \<and>
            (\<exists>a. agent_row db_scenario (agent_id task_t2) = Some a \<and> status_a a = ''active'') \<and>
            RequestException ''timed out'' \<noteq> Response 200 \<and> \<not> populated (result task_t2) \<and>
            clock_100 0 \<le> clock_100 1"
    by (simp add: agent_row_def db_scenario_def task_t2_def agent_a1_def populated_def clock_100_def)
  have e: "update_task_status db_scenario clock_100 ''t2'' ?d =
          (Inr (task_t2\<lparr>status := ''completed'', result := Some ''{\"ok\": true}'',
                        completed_at := Some 100\<rparr>),
           snd (update_task_status db_scenario clock_100 ''t2'' ?d))"
    by (simp add: update_task_status_def task_row_def db_scenario_def task_t1_def task_t2_def
        apply_status_def apply_result_def apply_error_message_def clock_100_def Let_def)
  from terminal_writes_keep_invariant [OF h, of ?d clock_100 "RequestException ''timed out''"] u x
  have "(\<exists>s' t'. update_task_status db_scenario clock_100 ''t2'' ?d = (Inr t', s') \<and>
             task_row s' ''t2'' = Some t' \<and> terminal (status t') \<and> task_invariant t')"
    and r: "(\<exists>e s' t'. execute_task db_scenario clock_100 (RequestException ''timed out'') ''t2'' =
        (Inl e, s') \<and> task_row s' ''t2'' = Some t' \<and> terminal (status t') \<and> task_invariant t')"
    by blast+
  with e have "task_invariant (task_t2\<lparr>status := ''completed'', result := Some ''{\"ok\": true}'',
                          completed_at := Some 100\<rparr>)"
    by (metis Pair_inject sum.inject(2))
  with h e r show ?thesis by blast
qed

text \<open>
  Claim C7 as stated fails under the status update. Reporting the pending task
  t1 as completed with neither result nor error message leaves it terminal with
  neither populated. And a pending task that carries a completed-at of 50 (it
  was completed and then set back to pending) gets started-at 100 when it is
  reported running: started-at is after completed-at.
\<close>

theorem task_invariant_counterexample:
  "task_invariant task_t1 \<and>
   update_task_status db_scenario clock_100 ''t1''
       \<lparr>d_status = Some ''completed'', d_result = None, d_error_message = None\<rparr> =
     (Inr (task_t1\<lparr>status := ''completed'', completed_at := Some 100\<rparr>),
      db_scenario\<lparr>tasks := [task_t1\<lparr>status := ''completed'', completed_at := Some 100\<rparr>, task_t2]\<rparr>) \<and>
   \<not> task_invariant (task_t1\<lparr>status := ''completed'', completed_at := Some 100\<rparr>) \<and>
   task_invariant (task_t1\<lparr>completed_at := Some 50\<rparr>) \<and>
   fst (update_task_status (db_scenario\<lparr>tasks := [task_t1\<lparr>completed_at := Some 50\<rparr>]\<rparr>) clock_100 ''t1''
       \<lparr>d_status = Some ''running'', d_result = None, d_error_message = None\<rparr>) =
     Inr (task_t1\<lparr>status := ''running'', started_at := Some 100, completed_at := Some 50\<rparr>) \<and>
   \<not> task_invariant (task_t1\<lparr>status := ''running'', started_at := Some 100, completed_at := Some 50\<rparr>)"
  by (simp add: task_invariant_def timestamps_ordered_def terminal_def populated_def
      update_task_status_def task_row_def db_scenario_def task_t1_def task_t2_def
      apply_status_def apply_result_def apply_error_message_def clock_100_def Let_def)

section \<open>Registration\<close>

text \<open>
  Claim C8. A registration that carries id, name and endpoint, with an id that
  is already registered, is refused with status 409 (conflict) and the store is
  returned as it was: the registered agent keeps every field.
\<close>

theorem register_agent_conflict:
  assumes "agent_row s i = Some a"
    and "d_id data = Some i" and "d_name data = Some n" and "d_endpoint data = Some e"
  shows "register_agent s clock data = (Inl (''Agent with this ID already exists'', 409), s) \<and>
         agent_row (snd (register_agent s clock data)) i = Some a"
  using assms by (simp add: register_agent_def)

text \<open>
  Registering a second agent under the id a1 of the scenario.
\<close>

theorem register_agent_conflict_witness:
  "agent_row db_scenario ''a1'' = Some agent_a1 \<and>
   register_agent db_scenario clock_100
     \<lparr>d_id = Some ''a1'', d_name = Some ''Other'', d_endpoint = Some ''http://localhost:5002'',
      d_description = None, d_capabilities = None\<rparr> =
   (Inl (''Agent with this ID already exists'', 409), db_scenario)"
proof -
  have h: "agent_row db_scenario ''a1'' = Some agent_a1"
    by (simp add: agent_row_def db_scenario_def agent_a1_def)
  from register_agent_conflict [OF h, of
      "\<lparr>d_id = Some ''a1'', d_name = Some ''Other'', d_endpoint = Some ''http://localhost:5002'',
        d_description = None, d_capabilities = None\<rparr>" "''Other''" "''http://localhost:5002''" clock_100] h
  show ?thesis by simp
qed

section \<open>Heartbeat\<close>

lemma find_update_first_fun:
  "find P xs = Some x \<Longrightarrow> P (f x) \<Longrightarrow> find P (update_first P f xs) = Some (f x)"
  by (induction xs) (auto split: if_splits)

lemma commit_agent_heartbeat:
  "commit_agent now a (a\<lparr>last_heartbeat := h, status_a := ''active''\<rparr>) =
   a\<lparr>last_heartbeat := h, status_a := ''active'',
     updated_at := (if last_heartbeat a = h \<and> status_a a = ''active'' then updated_at a else now)\<rparr>"
  by (cases a) (auto simp: commit_agent_def)

lemma agent_row_id: "agent_row s i = Some a \<Longrightarrow> id_a a = i"
  by (auto simp: agent_row_def dest: find_Some_iff [THEN iffD1])

lemma agent_heartbeat_store:
  assumes "agent_row s i = Some a"
  shows "agent_heartbeat s clock i =
     (Inr ''heartbeat_received'',
      s\<lparr>agents := update_first (\<lambda>x. id_a x = i)
          (\<lambda>x. commit_agent (clock 1) x (a\<lparr>last_heartbeat := clock 0, status_a := ''active''\<rparr>))
          (agents s)\<rparr>)"
  using assms by (simp add: agent_heartbeat_def Let_def)

text \<open>
  Claim C9, as the code has it. For a registered agent in any status, heartbeat
  succeeds; the agent's last-liveness timestamp becomes the clock reading, its
  status becomes active, and updated-at is refreshed from the clock at commit
  time (unless the row did not change); every other field, every other agent
  and every task is as before. For an id that is not registered, heartbeat
  fails and returns the store as it was.
\<close>

theorem agent_heartbeat_effects:
  "(\<forall>a. agent_row s i = Some a \<longrightarrow>
      (\<exists>s' a' k. agent_heartbeat s clock i = (Inr ''heartbeat_received'', s') \<and>
         a' = a\<lparr>last_heartbeat := clock 0, status_a := ''active'',
                updated_at := (if last_heartbeat a = clock 0 \<and> status_a a = ''active''
                               then updated_at a else clock 1)\<rparr> \<and>
         agent_row s' i = Some a' \<and>
         k < length (agents s) \<and> agents s ! k = a \<and> agents s' = (agents s)[k := a'] \<and>
         tasks s' = tasks s)) \<and>
   (agent_row s i = None \<longrightarrow> (\<exists>e. agent_heartbeat s clock i = (Inl e, s)))"
proof (intro conjI allI impI)
  fix a
  assume h: "agent_row s i = Some a"
  define a' where "a' = a\<lparr>last_heartbeat := clock 0, status_a := ''active'',
                updated_at := (if last_heartbeat a = clock 0 \<and> status_a a = ''active''
                               then updated_at a else clock 1)\<rparr>"
  define f where
    "f = (\<lambda>x. commit_agent (clock 1) x (a\<lparr>last_heartbeat := clock 0, status_a := ''active''\<rparr>))"
  define s' where "s' = s\<lparr>agents := update_first (\<lambda>x. id_a x = i) f (agents s)\<rparr>"
  have fa: "f a = a'"
    unfolding f_def a'_def by (rule commit_agent_heartbeat)
  have F: "find (\<lambda>x. id_a x = i) (agents s) = Some a"
    using h by (simp add: agent_row_def)
  have e: "agent_heartbeat s clock i = (Inr ''heartbeat_received'', s')"
    unfolding s'_def f_def by (rule agent_heartbeat_store [OF h])
  have "id_a a' = i"
    unfolding a'_def using agent_row_id [OF h] by simp
  then have "id_a (f a) = i" by (simp only: fa)
  with F have "find (\<lambda>x. id_a x = i) (update_first (\<lambda>x. id_a x = i) f (agents s)) = Some (f a)"
    by (rule find_update_first_fun)
  then have r: "agent_row s' i = Some a'"
    by (simp add: agent_row_def s'_def fa)
  from update_first_list_update [OF F, of f] obtain k where
    k: "k < length (agents s)" "agents s ! k = a"
    and "update_first (\<lambda>x. id_a x = i) f (agents s) = (agents s)[k := f a]"
    by auto
  then have ag: "agents s' = (agents s)[k := a']"
    by (simp add: s'_def fa)
  have tk: "tasks s' = tasks s"
    by (simp add: s'_def)
  from e a'_def r k ag tk
  show "\<exists>s' a' k. agent_heartbeat s clock i = (Inr ''heartbeat_received'', s') \<and>
         a' = a\<lparr>last_heartbeat := clock 0, status_a := ''active'',
                updated_at := (if last_heartbeat a = clock 0 \<and> status_a a = ''active''
                               then updated_at a else clock 1)\<rparr> \<and>
         agent_row s' i = Some a' \<and>
         k < length (agents s) \<and> agents s ! k = a \<and> agents s' = (agents s)[k := a'] \<and>
         tasks s' = tasks s"
    by - (rule exI [of _ s'], rule exI [of _ a'], rule exI [of _ k], intro conjI, assumption+)
next
  assume "agent_row s i = None"
  then show "\<exists>e. agent_heartbeat s clock i = (Inl e, s)"
    by (simp add: agent_heartbeat_def)
qed

text \<open>
  Heartbeat for a1 of the scenario at clock reading 100, and for the unknown id zz.
\<close>

theorem agent_heartbeat_effects_witness:
  "agent_row db_scenario ''a1'' = Some agent_a1 \<and>
   agent_row db_scenario ''zz'' = None \<and>
   (\<exists>s' a'. agent_heartbeat db_scenario clock_100 ''a1'' = (Inr ''heartbeat_received'', s') \<and>
      agent_row s' ''a1'' = Some a' \<and> last_heartbeat a' = 100 \<and> status_a a' = ''active'' \<and>
      updated_at a' = 101 \<and> tasks s' = tasks db_scenario) \<and>
   (\<exists>e. agent_heartbeat db_scenario clock_100 ''zz'' = (Inl e, db_scenario))"
proof -
  have h: "agent_row db_scenario ''a1'' = Some agent_a1"
    and n: "agent_row db_scenario ''zz'' = None"
    by (simp_all add: agent_row_def db_scenario_def agent_a1_def)
  have v: "last_heartbeat agent_a1 \<noteq> clock_100 0" "clock_100 0 = 100" "clock_100 1 = 101"
    by (simp_all add: agent_a1_def clock_100_def)
  note t = agent_heartbeat_effects [of db_scenario _ clock_100]
  from t [of "''a1''"] h obtain s' a' where
    1: "agent_heartbeat db_scenario clock_100 ''a1'' = (Inr ''heartbeat_received'', s')"
    and 2: "a' = agent_a1\<lparr>last_heartbeat := clock_100 0, status_a := ''active'',
                updated_at := (if last_heartbeat agent_a1 = clock_100 0 \<and> status_a agent_a1 = ''active''
                               then updated_at agent_a1 else clock_100 1)\<rparr>"
    and 3: "agent_row s' ''a1'' = Some a'" and 4: "tasks s' = tasks db_scenario"
    by auto
  from 2 v have 5: "last_heartbeat a' = 100" "status_a a' = ''active''" "updated_at a' = 101"
    by simp_all
  from t [of "''zz''"] n
  have 6: "\<exists>e. agent_heartbeat db_scenario clock_100 ''zz'' = (Inl e, db_scenario)" by simp
  from 1 3 5 4 have "\<exists>s' a'. agent_heartbeat db_scenario clock_100 ''a1'' = (Inr ''heartbeat_received'', s') \<and>
      agent_row s' ''a1'' = Some a' \<and> last_heartbeat a' = 100 \<and> status_a a' = ''active'' \<and>
      updated_at a' = 101 \<and> tasks s' = tasks db_scenario"
    by - (rule exI [of _ s'], rule exI [of _ a'], intro conjI, assumption+)
  with h n 6 show ?thesis by (intro conjI)
qed

text \<open>
  Claim C9 as stated fails in two places. For the unknown id zz the failure is
  the 500 internal error, not 404: the not-found exception is raised inside the
  handler's \<^verbatim>\<open>try\<close> and caught by its \<^verbatim>\<open>except Exception\<close>. And for a1 the heartbeat
  changes updated-at (from 1 to 101) along with the last-liveness timestamp.
\<close>

theorem agent_heartbeat_counterexample:
  "agent_row db_scenario ''zz'' = None \<and>
   agent_heartbeat db_scenario clock_100 ''zz'' = (Inl (''Internal server error'', 500), db_scenario) \<and>
   updated_at agent_a1 = 1 \<and>
   agent_row (snd (agent_heartbeat db_scenario clock_100 ''a1'')) ''a1'' =
     Some (agent_a1\<lparr>last_heartbeat := 100, updated_at := 101\<rparr>)"
  by (simp add: agent_heartbeat_def agent_row_def db_scenario_def agent_a1_def clock_100_def
      commit_agent_def internal_error_def)

section \<open>Unregistration\<close>

text \<open>
  What the loop over the pending tasks stages: the agent reference of every
  task stays; a task of the agent that is pending becomes cancelled, with the
  error message and the clock reading of its turn; every other task stays as it
  is.
\<close>

lemma cancel_pending_agent_id:
  "map agent_id (cancel_pending i clock k ts) = map agent_id ts"
  by (induction ts arbitrary: k) simp_all

lemma cancel_pending_length: "length (cancel_pending i clock k ts) = length ts"
  by (induction ts arbitrary: k) simp_all

lemma cancel_pending_nth:
  "j < length ts \<Longrightarrow>
   cancel_pending i clock k ts ! j =
     (if agent_id (ts ! j) = i \<and> status (ts ! j) = ''pending''
      then (ts ! j)\<lparr>status := ''cancelled'', error_message := Some ''Agent unregistered'',
                    completed_at := Some (clock (k + length (filter
                        (\<lambda>t. agent_id t = i \<and> status t = ''pending'') (take j ts))))\<rparr>
      else ts ! j)"
proof (induction ts arbitrary: k j)
  case Nil
  then show ?case by simp
next
  case (Cons t ts)
  show ?case
  proof (cases j)
    case 0
    then show ?thesis by simp
  next
    case (Suc j')
    with Cons.prems have "j' < length ts" by simp
    from Cons.IH [OF this] Suc show ?thesis by simp
  qed
qed

text \<open>
  The commit is refused as soon as one task refers to the agent.
\<close>

lemma unregister_agent_refused:
  assumes "agent_row s i = Some a" and "list_ex (\<lambda>t. agent_id t = i) (tasks s)"
  shows "unregister_agent s clock i = (Inl internal_error, s)"
proof -
  have "list_ex (\<lambda>t. agent_id t = i) (cancel_pending i clock 0 (tasks s))"
  proof -
    from assms(2) have "i \<in> set (map agent_id (tasks s))"
      by (auto simp: list_ex_iff)
    then have "i \<in> set (map agent_id (cancel_pending i clock 0 (tasks s)))"
      by (simp only: cancel_pending_agent_id)
    then show ?thesis by (auto simp: list_ex_iff)
  qed
  with assms(1) show ?thesis by (simp add: unregister_agent_def)
qed

text \<open>
  Claim C4 on the scenario: agent a1 has the two pending tasks t1 and t2.
  Unregistering a1 answers 500 and the store is as before: a1 is still
  registered and t1 and t2 are still pending.
\<close>

theorem unregister_agent_pending_task:
  "agent_row db_scenario ''a1'' = Some agent_a1 \<and>
   unregister_agent db_scenario clock_100 ''a1'' = (Inl (''Internal server error'', 500), db_scenario)"
  by (simp add: unregister_agent_def agent_row_def db_scenario_def agent_a1_def task_t1_def
      task_t2_def internal_error_def)

section \<open>System status\<close>

lemma count_four:
  "length (filter (\<lambda>t. f t = ''pending'') xs) + length (filter (\<lambda>t. f t = ''running'') xs) +
   length (filter (\<lambda>t. f t = ''completed'') xs) + length (filter (\<lambda>t. f t = ''failed'') xs) =
   length (filter (\<lambda>t. f t \<in> set [''pending'', ''running'', ''completed'', ''failed'']) xs)"
  by (induction xs) auto

lemma count_three:
  "length (filter (\<lambda>t. f t = ''active'') xs) + length (filter (\<lambda>t. f t = ''inactive'') xs) +
   length (filter (\<lambda>t. f t = ''error'') xs) =
   length (filter (\<lambda>t. f t \<in> set [''active'', ''inactive'', ''error'']) xs)"
  by (induction xs) auto

lemma count_tasks_drop_cancelled:
  "v \<noteq> ''cancelled'' \<Longrightarrow>
   count_tasks (s\<lparr>tasks := filter (\<lambda>t. status t \<noteq> ''cancelled'') (tasks s)\<rparr>) v = count_tasks s v"
  by (auto simp: count_tasks_def intro!: arg_cong [where f = length] filter_cong)

text \<open>
  Claim C10. The reported task total is the number of tasks whose status is
  pending, running, completed or failed, and is the sum of the four reported
  counts; each count is the number of tasks with that status; removing every
  cancelled task from the store changes nothing in the report. The agent total
  is the sum of the active, inactive and error counts, which is the number of
  agents in one of these three statuses.
\<close>

theorem system_status_counts:
  "total_t (tasks_s (get_system_status s clock)) =
     length (filter (\<lambda>t. status t \<in> set [''pending'', ''running'', ''completed'', ''failed'']) (tasks s)) \<and>
   total_t (tasks_s (get_system_status s clock)) =
     pending (tasks_s (get_system_status s clock)) + running (tasks_s (get_system_status s clock)) +
     completed (tasks_s (get_system_status s clock)) + failed (tasks_s (get_system_status s clock)) \<and>
   pending (tasks_s (get_system_status s clock)) = length (filter (\<lambda>t. status t = ''pending'') (tasks s)) \<and>
   running (tasks_s (get_system_status s clock)) = length (filter (\<lambda>t. status t = ''running'') (tasks s)) \<and>
   completed (tasks_s (get_system_status s clock)) = length (filter (\<lambda>t. status t = ''completed'') (tasks s)) \<and>
   failed (tasks_s (get_system_status s clock)) = length (filter (\<lambda>t. status t = ''failed'') (tasks s)) \<and>
   get_system_status (s\<lparr>tasks := filter (\<lambda>t. status t \<noteq> ''cancelled'') (tasks s)\<rparr>) clock =
     get_system_status s clock \<and>
   total (agents_s (get_system_status s clock)) =
     active (agents_s (get_system_status s clock)) + inactive (agents_s (get_system_status s clock)) +
     error (agents_s (get_system_status s clock)) \<and>
   total (agents_s (get_system_status s clock)) =
     length (filter (\<lambda>a. status_a a \<in> set [''active'', ''inactive'', ''error'']) (agents s))"
proof -
  have c: "get_system_status (s\<lparr>tasks := filter (\<lambda>t. status t \<noteq> ''cancelled'') (tasks s)\<rparr>) clock =
     get_system_status s clock"
    by (simp add: get_system_status_def Let_def count_tasks_drop_cancelled)
       (simp add: count_agents_def)
  have t: "total_t (tasks_s (get_system_status s clock)) =
     length (filter (\<lambda>t. status t \<in> set [''pending'', ''running'', ''completed'', ''failed'']) (tasks s))"
    unfolding count_four [symmetric] by (simp add: get_system_status_def Let_def count_tasks_def)
  have a: "total (agents_s (get_system_status s clock)) =
     length (filter (\<lambda>a. status_a a \<in> set [''active'', ''inactive'', ''error'']) (agents s))"
    unfolding count_three [symmetric] by (simp add: get_system_status_def Let_def count_agents_def)
  show ?thesis
    unfolding c t a
    by (simp add: get_system_status_def Let_def count_tasks_def count_agents_def count_four count_three)
qed

end
